theory Spec2Isabelle
  imports Main
begin

section \<open>Data model\<close>

text \<open>
  The persistent backend is the SQLAlchemy schema of \<^verbatim>\<open>models.py\<close>: one list of rows
  per table, in the order of insertion.
  Primary keys, positions and counts are natural numbers. The timestamp columns
  (\<^verbatim>\<open>created_at\<close>, \<^verbatim>\<open>updated_at\<close>) are left out: no operation below reads them.
  The model covers the executions in which the storage engine raises no exception
  (SQLite with its default settings enforces no foreign key).
\<close>

record user_row =
  user_id :: nat
  username :: string
  email :: string
  password_hash :: string

record board_row =
  board_id :: nat
  board_name :: string
  board_user :: nat

record column_row =
  column_id :: nat
  column_board :: nat
  column_name :: string
  column_type :: string
  column_position :: nat

record task_row =
  task_id :: nat
  task_board :: nat
  task_name :: string
  task_position :: nat

record cell_row =
  cell_id :: nat
  cell_task :: nat
  cell_column :: nat
  cell_value :: string

record database =
  users :: "user_row list"
  boards :: "board_row list"
  board_columns :: "column_row list"
  tasks :: "task_row list"
  task_cells :: "cell_row list"

definition empty_database :: database where
  "empty_database = \<lparr>users = [], boards = [], board_columns = [], tasks = [], task_cells = []\<rparr>"

text \<open>
  A snackbar: the message and the \<^verbatim>\<open>is_error\<close> flag of \<^verbatim>\<open>show_snackbar\<close>.
\<close>

type_synonym notification = "string \<times> bool"

text \<open>
  An integer primary key is assigned by the database on insert: one more than the
  largest key of the table.
\<close>

definition next_id :: "nat list \<Rightarrow> nat" where
  "next_id ids = Suc (fold max ids 0)"

text \<open>
  Python's \<^verbatim>\<open>str\<close> of a non-negative integer, as the f-strings use it.
\<close>

definition digit_char :: "nat \<Rightarrow> char" where
  "digit_char d = ''0123456789'' ! d"

fun str_nat :: "nat \<Rightarrow> string" where
  "str_nat n = (if n < 10 then [digit_char n] else str_nat (n div 10) @ [digit_char (n mod 10)])"

declare str_nat.simps [simp del]

section \<open>Guest mode: the fields of a table view\<close>

text \<open>
  \<^verbatim>\<open>GuestColumn\<close> and \<^verbatim>\<open>GuestTask\<close> objects and the instance fields of
  \<^verbatim>\<open>TaskTableView\<close> that hold them; \<^verbatim>\<open>guest_cells\<close> is the dictionary
  \<^verbatim>\<open>{task_id: {column_id: value}}\<close>.
\<close>

record guest_column =
  gcol_id :: nat
  gcol_name :: string
  gcol_type :: string
  gcol_position :: nat

record guest_task =
  gtask_id :: nat
  gtask_name :: string
  gtask_position :: nat
  gtask_board :: nat

record table_view =
  view_board :: nat
  guest_columns :: "guest_column list"
  guest_tasks :: "guest_task list"
  guest_cells :: "nat \<rightharpoonup> (nat \<rightharpoonup> string)"
  guest_column_counter :: nat
  guest_task_counter :: nat

section \<open>Cell values\<close>

text \<open>
  \<^verbatim>\<open>session.query(TaskCell).filter_by(task_id=..., column_id=...).first()\<close>
\<close>

definition cell_matches :: "nat \<Rightarrow> nat \<Rightarrow> cell_row \<Rightarrow> bool" where
  "cell_matches t c x = (cell_task x = t \<and> cell_column x = c)"

definition first_cell :: "database \<Rightarrow> nat \<Rightarrow> nat \<Rightarrow> cell_row option" where
  "first_cell db t c = find (cell_matches t c) (task_cells db)"

text \<open>\<^verbatim>\<open>TaskTableView.get_cell_value\<close>, the two branches.\<close>

definition get_cell_value :: "database \<Rightarrow> nat \<Rightarrow> nat \<Rightarrow> string" where
  "get_cell_value db t c =
     (case first_cell db t c of Some cell \<Rightarrow> cell_value cell | None \<Rightarrow> '''')"

definition guest_get_cell_value :: "table_view \<Rightarrow> nat \<Rightarrow> nat \<Rightarrow> string" where
  "guest_get_cell_value v t c =
     (case (case guest_cells v t of Some row \<Rightarrow> row | None \<Rightarrow> Map.empty) c of
        Some s \<Rightarrow> s | None \<Rightarrow> '''')"

text \<open>
  \<^verbatim>\<open>TaskTableView.update_cell\<close>. In the database branch the row found by the
  query is changed in place (an update by primary key), else a row is added.
\<close>

definition update_cell :: "database \<Rightarrow> nat \<Rightarrow> nat \<Rightarrow> string \<Rightarrow> database" where
  "update_cell db t c val =
     (case first_cell db t c of
        Some cell \<Rightarrow>
          db\<lparr>task_cells :=
               map (\<lambda>x. if cell_id x = cell_id cell then x\<lparr>cell_value := val\<rparr> else x)
                 (task_cells db)\<rparr>
      | None \<Rightarrow>
          db\<lparr>task_cells := task_cells db @
               [\<lparr>cell_id = next_id (map cell_id (task_cells db)),
                 cell_task = t, cell_column = c, cell_value = val\<rparr>]\<rparr>)"

definition guest_update_cell :: "table_view \<Rightarrow> nat \<Rightarrow> nat \<Rightarrow> string \<Rightarrow> table_view" where
  "guest_update_cell v t c val =
     (let cells = (if guest_cells v t = None then (guest_cells v)(t \<mapsto> Map.empty)
                   else guest_cells v)
      in v\<lparr>guest_cells := cells(t \<mapsto> (the (cells t))(c \<mapsto> val))\<rparr>)"

text \<open>The rows stored for one (task, column) pair.\<close>

definition cells_of :: "database \<Rightarrow> nat \<Rightarrow> nat \<Rightarrow> cell_row list" where
  "cells_of db t c = filter (cell_matches t c) (task_cells db)"

section \<open>Status cycling\<close>

text \<open>
  \<^verbatim>\<open>list(STATUS_OPTIONS.keys())\<close>: the keys of the dictionary in insertion order.
\<close>

definition status_list :: "string list" where
  "status_list = [''Done'', ''Working On It'', ''Stuck'', '''']"

text \<open>\<^verbatim>\<open>list.index\<close>; \<open>None\<close> stands for the \<^verbatim>\<open>ValueError\<close>.\<close>

fun index_of :: "'a \<Rightarrow> 'a list \<Rightarrow> nat option" where
  "index_of a [] = None"
| "index_of a (x # xs) = (if x = a then Some 0 else map_option Suc (index_of a xs))"

definition next_index :: "string \<Rightarrow> nat" where
  "next_index current_value =
     (case index_of current_value status_list of
        Some current_index \<Rightarrow> (current_index + 1) mod length status_list
      | None \<Rightarrow> 0)"

definition next_status :: "string \<Rightarrow> string" where
  "next_status current_value = status_list ! next_index current_value"

text \<open>\<^verbatim>\<open>TaskTableView.cycle_status\<close>, on each backend.\<close>

definition cycle_status :: "database \<Rightarrow> nat \<Rightarrow> nat \<Rightarrow> database" where
  "cycle_status db t c = update_cell db t c (next_status (get_cell_value db t c))"

definition guest_cycle_status :: "table_view \<Rightarrow> nat \<Rightarrow> nat \<Rightarrow> table_view" where
  "guest_cycle_status v t c = guest_update_cell v t c (next_status (guest_get_cell_value v t c))"

section \<open>Tasks and columns of a table view\<close>

text \<open>
  The operations of \<^verbatim>\<open>TaskTableView\<close> that change the store. Their snackbars and the
  re-rendering of \<^verbatim>\<open>refresh_table\<close> change no stored data and are left out.
  \<^verbatim>\<open>session.delete\<close> removes the row and follows the relationships that
  \<^verbatim>\<open>models.py\<close> declares with \<^verbatim>\<open>cascade="all, delete-orphan"\<close>:
  \<^verbatim>\<open>Board.columns\<close>, \<^verbatim>\<open>Board.tasks\<close> and \<^verbatim>\<open>Task.cells\<close>.
  \<^verbatim>\<open>BoardColumn\<close> declares no relationship to \<^verbatim>\<open>TaskCell\<close>.
\<close>

definition board_tasks :: "database \<Rightarrow> nat \<Rightarrow> task_row list" where
  "board_tasks db b = filter (\<lambda>x. task_board x = b) (tasks db)"

definition columns_of_board :: "database \<Rightarrow> nat \<Rightarrow> column_row list" where
  "columns_of_board db b = filter (\<lambda>x. column_board x = b) (board_columns db)"

text \<open>The column and task queries of \<^verbatim>\<open>refresh_table\<close>, ordered by position.\<close>

definition list_columns :: "database \<Rightarrow> nat \<Rightarrow> column_row list" where
  "list_columns db b = sort_key column_position (columns_of_board db b)"

definition guest_list_columns :: "table_view \<Rightarrow> guest_column list" where
  "guest_list_columns v = sort_key gcol_position (guest_columns v)"

definition list_tasks :: "database \<Rightarrow> nat \<Rightarrow> task_row list" where
  "list_tasks db b = sort_key task_position (board_tasks db b)"

definition guest_list_tasks :: "table_view \<Rightarrow> guest_task list" where
  "guest_list_tasks v = sort_key gtask_position (guest_tasks v)"

text \<open>\<^verbatim>\<open>TaskTableView.add_task\<close>\<close>

definition add_task :: "database \<Rightarrow> nat \<Rightarrow> database" where
  "add_task db b =
     (let task_count = length (board_tasks db b)
      in db\<lparr>tasks := tasks db @
           [\<lparr>task_id = next_id (map task_id (tasks db)), task_board = b,
             task_name = ''New Task '' @ str_nat (task_count + 1),
             task_position = task_count\<rparr>]\<rparr>)"

definition guest_add_task :: "table_view \<Rightarrow> table_view" where
  "guest_add_task v =
     (let counter = guest_task_counter v + 1
      in v\<lparr>guest_task_counter := counter,
           guest_tasks := guest_tasks v @
             [\<lparr>gtask_id = counter, gtask_name = ''New Task '' @ str_nat counter,
               gtask_position = length (guest_tasks v), gtask_board = view_board v\<rparr>]\<rparr>)"

text \<open>\<^verbatim>\<open>TaskTableView.delete_task\<close>\<close>

definition delete_task :: "database \<Rightarrow> nat \<Rightarrow> database" where
  "delete_task db t =
     (case find (\<lambda>x. task_id x = t) (tasks db) of
        Some db_task \<Rightarrow>
          db\<lparr>tasks := filter (\<lambda>x. task_id x \<noteq> task_id db_task) (tasks db),
             task_cells := filter (\<lambda>x. cell_task x \<noteq> task_id db_task) (task_cells db)\<rparr>
      | None \<Rightarrow> db)"

definition guest_delete_task :: "table_view \<Rightarrow> nat \<Rightarrow> table_view" where
  "guest_delete_task v t =
     v\<lparr>guest_tasks := filter (\<lambda>x. gtask_id x \<noteq> t) (guest_tasks v),
       guest_cells := (guest_cells v)(t := None)\<rparr>"

text \<open>
  \<^verbatim>\<open>create_column\<close> of \<^verbatim>\<open>show_add_column_dialog\<close>; an empty name is refused.
\<close>

definition create_column :: "database \<Rightarrow> nat \<Rightarrow> string \<Rightarrow> string \<Rightarrow> database" where
  "create_column db b name col_type =
     (if name = [] then db
      else db\<lparr>board_columns := board_columns db @
             [\<lparr>column_id = next_id (map column_id (board_columns db)), column_board = b,
               column_name = name, column_type = col_type,
               column_position = length (columns_of_board db b)\<rparr>]\<rparr>)"

definition guest_create_column :: "table_view \<Rightarrow> string \<Rightarrow> string \<Rightarrow> table_view" where
  "guest_create_column v name col_type =
     (if name = [] then v
      else let counter = guest_column_counter v + 1
           in v\<lparr>guest_column_counter := counter,
                guest_columns := guest_columns v @
                  [\<lparr>gcol_id = counter, gcol_name = name, gcol_type = col_type,
                    gcol_position = length (guest_columns v)\<rparr>]\<rparr>)"

text \<open>\<^verbatim>\<open>TaskTableView.delete_column\<close>\<close>

definition delete_column :: "database \<Rightarrow> nat \<Rightarrow> database" where
  "delete_column db c =
     (case find (\<lambda>x. column_id x = c) (board_columns db) of
        Some db_column \<Rightarrow>
          db\<lparr>board_columns :=
               filter (\<lambda>x. column_id x \<noteq> column_id db_column) (board_columns db)\<rparr>
      | None \<Rightarrow> db)"

definition guest_delete_column :: "table_view \<Rightarrow> nat \<Rightarrow> table_view" where
  "guest_delete_column v c =
     v\<lparr>guest_columns := filter (\<lambda>x. gcol_id x \<noteq> c) (guest_columns v),
       guest_cells := (\<lambda>t. map_option (\<lambda>task_cells. task_cells(c := None)) (guest_cells v t))\<rparr>"

section \<open>Default columns and the construction of a table view\<close>

text \<open>\<^verbatim>\<open>TaskTableView._create_default_columns_guest\<close>\<close>

definition append_guest_column :: "string \<Rightarrow> string \<Rightarrow> nat \<Rightarrow> table_view \<Rightarrow> table_view" where
  "append_guest_column name col_type pos v =
     (let counter = guest_column_counter v + 1
      in v\<lparr>guest_column_counter := counter,
           guest_columns := guest_columns v @
             [\<lparr>gcol_id = counter, gcol_name = name, gcol_type = col_type,
               gcol_position = pos\<rparr>]\<rparr>)"

definition create_default_columns_guest :: "table_view \<Rightarrow> table_view" where
  "create_default_columns_guest v =
     append_guest_column ''Due Date'' ''date'' 2
       (append_guest_column ''Notes'' ''text'' 1
         (append_guest_column ''Status'' ''status'' 0 v))"

text \<open>\<^verbatim>\<open>TaskTableView._ensure_default_columns\<close>\<close>

definition insert_column :: "nat \<Rightarrow> string \<Rightarrow> string \<Rightarrow> nat \<Rightarrow> database \<Rightarrow> database" where
  "insert_column b name col_type pos db =
     db\<lparr>board_columns := board_columns db @
          [\<lparr>column_id = next_id (map column_id (board_columns db)), column_board = b,
            column_name = name, column_type = col_type, column_position = pos\<rparr>]\<rparr>"

definition ensure_default_columns :: "database \<Rightarrow> nat \<Rightarrow> database" where
  "ensure_default_columns db b =
     (let existing_columns = length (columns_of_board db b)
      in if existing_columns = 0
         then insert_column b ''Due Date'' ''date'' 2
                (insert_column b ''Notes'' ''text'' 1
                  (insert_column b ''Status'' ''status'' 0 db))
         else db)"

text \<open>
  \<^verbatim>\<open>TaskTableView.__init__\<close>: the fields are initialised, then the default columns are
  seeded by the branch for the backend.
\<close>

definition new_table_view :: "nat \<Rightarrow> table_view" where
  "new_table_view b =
     \<lparr>view_board = b, guest_columns = [], guest_tasks = [], guest_cells = Map.empty,
      guest_column_counter = 0, guest_task_counter = 0\<rparr>"

definition seed_default_columns :: "bool \<Rightarrow> database \<Rightarrow> table_view \<Rightarrow> database \<times> table_view" where
  "seed_default_columns is_guest db v =
     (if is_guest \<and> guest_columns v = [] then (db, create_default_columns_guest v)
      else if \<not> is_guest then (ensure_default_columns db (view_board v), v)
      else (db, v))"

definition table_view_init :: "bool \<Rightarrow> database \<Rightarrow> nat \<Rightarrow> database \<times> table_view" where
  "table_view_init is_guest db b = seed_default_columns is_guest db (new_table_view b)"

text \<open>Name, type and position of a column, as the table shows them.\<close>

definition column_summary :: "column_row \<Rightarrow> string \<times> string \<times> nat" where
  "column_summary x = (column_name x, column_type x, column_position x)"

definition guest_column_summary :: "guest_column \<Rightarrow> string \<times> string \<times> nat" where
  "guest_column_summary x = (gcol_name x, gcol_type x, gcol_position x)"

definition default_columns :: "(string \<times> string \<times> nat) list" where
  "default_columns = [(''Status'', ''status'', 0), (''Notes'', ''text'', 1), (''Due Date'', ''date'', 2)]"

section \<open>The dashboard\<close>

text \<open>
  \<^verbatim>\<open>DashboardView\<close> keeps the selected board and the board view; \<^verbatim>\<open>BoardView.__init__\<close>
  constructs a \<^verbatim>\<open>TaskTableView\<close> when a board is given. Of the board the table view
  reads the id only, so the selected board is kept as its id.
\<close>

record dashboard =
  current_board :: "nat option"
  board_view :: "table_view option"

definition board_view_init :: "bool \<Rightarrow> database \<Rightarrow> nat option \<Rightarrow> database \<times> table_view option" where
  "board_view_init is_guest db board =
     (case board of
        Some b \<Rightarrow> (case table_view_init is_guest db b of (db', v) \<Rightarrow> (db', Some v))
      | None \<Rightarrow> (db, None))"

definition refresh_board_view :: "bool \<Rightarrow> database \<Rightarrow> dashboard \<Rightarrow> database \<times> dashboard" where
  "refresh_board_view is_guest db d =
     (case board_view_init is_guest db (current_board d) of
        (db', view) \<Rightarrow> (db', d\<lparr>board_view := view\<rparr>))"

definition handle_board_select :: "bool \<Rightarrow> database \<Rightarrow> dashboard \<Rightarrow> nat \<Rightarrow> database \<times> dashboard" where
  "handle_board_select is_guest db d board =
     refresh_board_view is_guest db (d\<lparr>current_board := Some board\<rparr>)"

section \<open>Boards of the sidebar\<close>

text \<open>
  \<^verbatim>\<open>BoardSidebar\<close>: the guest boards are instance fields; the boards of a user are rows
  of the database. Each handler returns the notifications it shows. The handlers that
  change something end with the callback \<^verbatim>\<open>on_refresh\<close>, which is
  \<^verbatim>\<open>refresh_board_view\<close> of the dashboard. For creating and renaming a board the
  functions below stop before that call. For deleting a board of the database the call
  is part of the function, since what is stored once the handler returns depends on it.
\<close>

record guest_board =
  gboard_id :: nat
  gboard_name :: string

record sidebar =
  guest_boards :: "guest_board list"
  guest_board_counter :: nat
  selected_board_id :: "nat option"

definition quoted :: "string \<Rightarrow> string" where
  "quoted s = [CHR 0x27] @ s @ [CHR 0x27]"

definition name_required :: notification where
  "name_required = (''Board name is required'', True)"

text \<open>\<^verbatim>\<open>create_board\<close> of \<^verbatim>\<open>show_add_board_dialog\<close>\<close>

definition create_board :: "database \<Rightarrow> nat \<Rightarrow> string \<Rightarrow> database \<times> notification list" where
  "create_board db uid name =
     (if name = [] then (db, [name_required])
      else (db\<lparr>boards := boards db @
                [\<lparr>board_id = next_id (map board_id (boards db)), board_name = name,
                  board_user = uid\<rparr>]\<rparr>,
            [(''Board '' @ quoted name @ '' created!'', False)]))"





text \<open>
  \<^verbatim>\<open>session.delete(db_board)\<close> and the commit: deleting the row deletes, through the
  cascades of \<^verbatim>\<open>Board.columns\<close>, \<^verbatim>\<open>Board.tasks\<close> and \<^verbatim>\<open>Task.cells\<close>, the columns
  and tasks of the board and the cells of those tasks.
\<close>

definition delete_board_rows :: "database \<Rightarrow> nat \<Rightarrow> database" where
  "delete_board_rows db b =
     (let task_ids = map task_id (board_tasks db b)
      in db\<lparr>boards := filter (\<lambda>x. board_id x \<noteq> b) (boards db),
            board_columns := filter (\<lambda>x. column_board x \<noteq> b) (board_columns db),
            tasks := filter (\<lambda>x. task_board x \<noteq> b) (tasks db),
            task_cells := filter (\<lambda>x. cell_task x \<notin> set task_ids) (task_cells db)\<rparr>)"

text \<open>
  \<^verbatim>\<open>delete_board\<close> of \<^verbatim>\<open>show_delete_dialog\<close>, for the board object the dialog was
  opened on (its id and its name). In the database branch a board that is found is
  deleted, the selection is cleared, and \<^verbatim>\<open>on_refresh\<close> rebuilds the board view for
  the board the dashboard holds, which runs \<^verbatim>\<open>_ensure_default_columns\<close> for that
  board. A board that is not found leaves everything as it is. The guest branch is
  given up to its \<^verbatim>\<open>on_refresh\<close>.
\<close>

definition clear_selection :: "nat \<Rightarrow> sidebar \<Rightarrow> sidebar" where
  "clear_selection bid sb =
     (if selected_board_id sb = Some bid then sb\<lparr>selected_board_id := None\<rparr> else sb)"

definition delete_board ::
  "database \<Rightarrow> sidebar \<Rightarrow> dashboard \<Rightarrow> nat \<Rightarrow> string
     \<Rightarrow> database \<times> sidebar \<times> dashboard \<times> notification list" where
  "delete_board db sb d bid name =
     (case find (\<lambda>x. board_id x = bid) (boards db) of
        Some db_board \<Rightarrow>
          (case refresh_board_view False (delete_board_rows db (board_id db_board)) d of
             (db', d') \<Rightarrow>
               (db', clear_selection bid sb, d',
                [(''Board '' @ quoted name @ '' deleted'', False)]))
      | None \<Rightarrow> (db, sb, d, []))"


section \<open>Signup and login\<close>

text \<open>
  The password hashing of \<^verbatim>\<open>models.py\<close> (\<^verbatim>\<open>bcrypt.hash\<close> in \<^verbatim>\<open>User.set_password\<close>,
  \<^verbatim>\<open>bcrypt.verify\<close> in \<^verbatim>\<open>User.check_password\<close>) is a parameter of the handlers.
  Either function may raise instead of returning (the library refuses some secrets,
  such as one above its size limit): \<open>Inl\<close> carries the text of the exception,
  \<open>Inr\<close> the value returned.
\<close>

definition fill_in_all_fields :: notification where
  "fill_in_all_fields = (''Please fill in all fields'', True)"

definition username_exists :: notification where
  "username_exists = (''Username already exists'', True)"

definition email_exists :: notification where
  "email_exists = (''Email already exists'', True)"

definition account_created :: notification where
  "account_created = (''Account created successfully! Please login.'', False)"

text \<open>
  The lookup \<^verbatim>\<open>filter((User.username == username) | (User.email == email)).first()\<close>.
  The query has no ordering clause. Both columns are declared unique, so each has an
  index, and SQLite answers the disjunction from the index of \<^verbatim>\<open>username\<close> first and
  from the index of \<^verbatim>\<open>email\<close> after it: a row with the username is returned before a
  row that has the email only.
\<close>

definition first_username_or_email :: "database \<Rightarrow> string \<Rightarrow> string \<Rightarrow> user_row option" where
  "first_username_or_email db uname mail =
     (case find (\<lambda>x. username x = uname) (users db) of
        Some row \<Rightarrow> Some row
      | None \<Rightarrow> find (\<lambda>x. email x = mail) (users db))"

text \<open>The row that a successful signup inserts, for the hash computed.\<close>

definition new_user :: "database \<Rightarrow> string \<Rightarrow> string \<Rightarrow> string \<Rightarrow> user_row" where
  "new_user db uname mail h =
     \<lparr>user_id = next_id (map user_id (users db)), username = uname, email = mail,
      password_hash = h\<rparr>"

text \<open>
  \<^verbatim>\<open>SignupView.handle_signup\<close>. An exception of the hashing is caught by the handler's
  last \<^verbatim>\<open>except\<close> branch, which rolls back and shows the text of the exception.
\<close>

definition handle_signup ::
  "(string \<Rightarrow> string + string) \<Rightarrow> database \<Rightarrow> string \<Rightarrow> string \<Rightarrow> string \<Rightarrow> string
     \<Rightarrow> database \<times> notification list" where
  "handle_signup hash db uname mail password confirm_password =
     (if uname = [] \<or> mail = [] \<or> password = [] \<or> confirm_password = []
      then (db, [fill_in_all_fields])
      else if password \<noteq> confirm_password then (db, [(''Passwords do not match'', True)])
      else if length password < 6 then (db, [(''Password must be at least 6 characters'', True)])
      else case first_username_or_email db uname mail of
             Some existing_user \<Rightarrow>
               (if username existing_user = uname then (db, [username_exists])
                else (db, [email_exists]))
           | None \<Rightarrow>
               (case hash password of
                  Inr h \<Rightarrow>
                    (db\<lparr>users := users db @ [new_user db uname mail h]\<rparr>, [account_created])
                | Inl ex \<Rightarrow> (db, [(''Signup error: '' @ ex, True)])))"

text \<open>The registration of the specification: the confirmation repeats the password.\<close>

definition register ::
  "(string \<Rightarrow> string + string) \<Rightarrow> database \<Rightarrow> string \<Rightarrow> string \<Rightarrow> string
     \<Rightarrow> database \<times> notification list" where
  "register hash db uname mail password = handle_signup hash db uname mail password password"

text \<open>
  \<^verbatim>\<open>LoginView.handle_login\<close>. The password is verified only when a user with the
  username exists; an exception of the verification is caught by the handler's
  \<^verbatim>\<open>except\<close> branch, which shows the text of the exception. The result is the user
  handed to \<^verbatim>\<open>on_login_success\<close>, if any, and the notifications.
\<close>

definition invalid_credentials :: notification where
  "invalid_credentials = (''Invalid username or password'', True)"

definition handle_login ::
  "(string \<Rightarrow> string \<Rightarrow> string + bool) \<Rightarrow> database \<Rightarrow> string \<Rightarrow> string
     \<Rightarrow> user_row option \<times> notification list" where
  "handle_login verify db uname password =
     (if uname = [] \<or> password = [] then (None, [fill_in_all_fields])
      else case find (\<lambda>x. username x = uname) (users db) of
             Some user \<Rightarrow>
               (case verify password (password_hash user) of
                  Inr ok \<Rightarrow>
                    (if ok then (Some user, [(''Welcome back, '' @ uname @ ''!'', False)])
                     else (None, [invalid_credentials]))
                | Inl ex \<Rightarrow> (None, [(''Login error: '' @ ex, True)]))
           | None \<Rightarrow> (None, [invalid_credentials]))"

section \<open>Invariants and example states\<close>

text \<open>At most one cell row for every (task, column) pair.\<close>

definition cells_unique :: "database \<Rightarrow> bool" where
  "cells_unique db = (\<forall>t c. length (cells_of db t c) \<le> 1)"

definition db_one_cell :: database where
  "db_one_cell = empty_database\<lparr>task_cells :=
     [\<lparr>cell_id = 1, cell_task = 1, cell_column = 2, cell_value = ''old''\<rparr>]\<rparr>"

text \<open>
  A board "Demo" of user 1 after its table was opened, a task was added and the
  Status cell of the task was set.
\<close>

definition db_demo :: database where
  "db_demo = update_cell (add_task (ensure_default_columns
       (fst (create_board empty_database 1 ''Demo'')) 1) 1) 1 1 ''Done''"

text \<open>
  A guest table view in which two tasks were added and the first was deleted.
\<close>

definition view_after_delete :: table_view where
  "view_after_delete =
     guest_delete_task
       (guest_add_task (guest_add_task (snd (table_view_init True empty_database 1)))) 1"

text \<open>
  Primary keys are unique within a table, and rows are looked up by primary key.
\<close>

definition primary_keys_ok :: "database \<Rightarrow> bool" where
  "primary_keys_ok db =
     (distinct (map column_id (board_columns db)) \<and> distinct (map task_id (tasks db))
      \<and> distinct (map cell_id (task_cells db)))"

definition find_board :: "database \<Rightarrow> nat \<Rightarrow> board_row option" where
  "find_board db k = find (\<lambda>x. board_id x = k) (boards db)"

definition find_column :: "database \<Rightarrow> nat \<Rightarrow> column_row option" where
  "find_column db k = find (\<lambda>x. column_id x = k) (board_columns db)"

definition find_task :: "database \<Rightarrow> nat \<Rightarrow> task_row option" where
  "find_task db k = find (\<lambda>x. task_id x = k) (tasks db)"

definition find_cell :: "database \<Rightarrow> nat \<Rightarrow> cell_row option" where
  "find_cell db k = find (\<lambda>x. cell_id x = k) (task_cells db)"

text \<open>A sidebar on which board 1 is selected.\<close>

definition sidebar_demo :: sidebar where
  "sidebar_demo = \<lparr>guest_boards = [], guest_board_counter = 0, selected_board_id = Some 1\<rparr>"


text \<open>
  The dashboard of a user before a board is selected, and after the board Demo was
  selected.
\<close>

definition dashboard_empty :: dashboard where
  "dashboard_empty = \<lparr>current_board = None, board_view = None\<rparr>"

definition dashboard_on_demo :: dashboard where
  "dashboard_on_demo = snd (handle_board_select False db_demo dashboard_empty 1)"

text \<open>
  A user creates a first board and selects it, deletes it while it is on display, adds
  a column "Owner" in the table that is still shown, and creates a second board. Each
  sidebar handler is followed by its refresh of the board view.
\<close>

definition db_first_board :: database where
  "db_first_board =
     fst (handle_board_select False
            (fst (refresh_board_view False (fst (create_board empty_database 1 ''First''))
                    dashboard_empty))
            dashboard_empty 1)"

definition dashboard_first_board :: dashboard where
  "dashboard_first_board =
     snd (handle_board_select False
            (fst (refresh_board_view False (fst (create_board empty_database 1 ''First''))
                    dashboard_empty))
            dashboard_empty 1)"

definition db_second_board :: database where
  "db_second_board =
     fst (refresh_board_view False
            (fst (create_board
                    (create_column
                       (fst (delete_board db_first_board sidebar_demo dashboard_first_board 1
                               ''First''))
                       1 ''Owner'' ''text'')
                    1 ''Second''))
            dashboard_first_board)"

text \<open>
  A stand-in for the password hash and its verification, to run signup and login on
  concrete inputs. Like the library, both raise on a password above 4096 characters.
\<close>

definition example_hash :: "string \<Rightarrow> string + string" where
  "example_hash password =
     (if 4096 < length password then Inl ''password exceeds maximum allowed size''
      else Inr (''hash:'' @ password))"

definition example_verify :: "string \<Rightarrow> string \<Rightarrow> string + bool" where
  "example_verify password h =
     (if 4096 < length password then Inl ''password exceeds maximum allowed size''
      else Inr (h = ''hash:'' @ password))"

definition long_password :: string where
  "long_password = replicate 4097 (CHR ''x'')"

text \<open>Stores after alice, and after bob and then alice, have signed up.\<close>

definition db_alice :: database where
  "db_alice = fst (register example_hash empty_database ''alice'' ''a@x.com'' ''secret1'')"


text \<open>
  A guest dashboard showing board 1, in whose table a task was added and the task's
  Status cell was set.
\<close>

definition dashboard_used :: dashboard where
  "dashboard_used =
     \<lparr>current_board = Some 1,
      board_view = Some (guest_update_cell
        (guest_add_task (snd (table_view_init True empty_database 1))) 1 1 ''Done'')\<rparr>"

section \<open>Properties of the cell store\<close>

lemma find_append_cases:
  "find P (xs @ ys) = (case find P xs of Some x \<Rightarrow> Some x | None \<Rightarrow> find P ys)"
  by (induction xs) auto

lemma find_map_stable:
  assumes "\<And>x. P (g x) = P x"
  shows "find P (map g xs) = map_option g (find P xs)"
  using assms by (induction xs) auto

lemma filter_map_stable:
  assumes "\<And>x. P (g x) = P x"
  shows "filter P (map g xs) = map g (filter P xs)"
  using assms by (induction xs) auto

lemma find_None_filter: "find P xs = None \<longleftrightarrow> filter P xs = []"
  by (induction xs) auto

lemma find_Some_filter: "find P xs = Some x \<Longrightarrow> \<exists>ys. filter P xs = x # ys"
  by (induction xs) (auto split: if_splits)

lemma cell_matches_set_value [simp]:
  "cell_matches t c (if cell_id x = k then x\<lparr>cell_value := val\<rparr> else x) = cell_matches t c x"
  by (simp add: cell_matches_def)

lemma get_after_update: "get_cell_value (update_cell db t c val) t c = val"
proof (cases "first_cell db t c")
  case None
  then show ?thesis
    by (simp add: get_cell_value_def update_cell_def first_cell_def find_append_cases
        cell_matches_def)
next
  case (Some cell)
  then show ?thesis
    by (simp add: get_cell_value_def update_cell_def first_cell_def find_map_stable)
qed

lemma guest_get_after_update:
  "guest_get_cell_value (guest_update_cell v t c val) t c = val"
  by (simp add: guest_get_cell_value_def guest_update_cell_def Let_def)

lemma cells_of_update_same:
  assumes "length (cells_of db t c) \<le> 1"
  shows "map cell_value (cells_of (update_cell db t c val) t c) = [val]"
proof (cases "first_cell db t c")
  case None
  then have "filter (cell_matches t c) (task_cells db) = []"
    by (simp add: first_cell_def find_None_filter)
  with None show ?thesis
    by (simp add: cells_of_def update_cell_def cell_matches_def)
next
  case (Some cell)
  then obtain ys where ys: "filter (cell_matches t c) (task_cells db) = cell # ys"
    using find_Some_filter by (fastforce simp: first_cell_def)
  with assms have "ys = []" by (simp add: cells_of_def)
  with ys Some show ?thesis
    by (simp add: cells_of_def update_cell_def filter_map_stable)
qed

lemma cells_of_update_other:
  assumes "(t', c') \<noteq> (t, c)"
  shows "length (cells_of (update_cell db t c val) t' c') = length (cells_of db t' c')"
proof (cases "first_cell db t c")
  case None
  with assms show ?thesis
    by (auto simp add: cells_of_def update_cell_def cell_matches_def)
next
  case (Some cell)
  then show ?thesis
    by (simp add: cells_of_def update_cell_def filter_map_stable)
qed

text \<open>
  The upsert keeps the invariant: no sequence of writes starting from an empty table
  stores two rows for one pair.
\<close>

lemma cells_unique_empty: "cells_unique empty_database"
  by (simp add: cells_unique_def cells_of_def empty_database_def)

lemma cells_unique_update_cell:
  assumes "cells_unique db"
  shows "cells_unique (update_cell db t c val)"
  unfolding cells_unique_def
proof (intro allI)
  fix t' c'
  show "length (cells_of (update_cell db t c val) t' c') \<le> 1"
  proof (cases "(t', c') = (t, c)")
    case True
    have "length (map cell_value (cells_of (update_cell db t c val) t c)) = 1"
      using cells_of_update_same [of db t c val] assms by (simp add: cells_unique_def)
    with True show ?thesis by simp
  next
    case False
    then show ?thesis
      using cells_of_update_other [of t' c' t c db val] assms by (simp add: cells_unique_def)
  qed
qed

text \<open>
  Claim C1. On both backends a value written with \<^verbatim>\<open>update_cell\<close> is the value that
  \<^verbatim>\<open>get_cell_value\<close> reads back for the same task and column. After two writes to one
  pair, the database (which held at most one row for the pair before) holds exactly one
  row for it, with the second value, and the guest dictionary holds the second value
  under the pair's keys.
\<close>

theorem cell_round_trip:
  "get_cell_value (update_cell db t c val) t c = val
   \<and> guest_get_cell_value (guest_update_cell v t c val) t c = val
   \<and> (length (cells_of db t c) \<le> 1 \<longrightarrow>
        map cell_value (cells_of (update_cell (update_cell db t c val1) t c val2) t c) = [val2])
   \<and> (\<exists>row. guest_cells (guest_update_cell (guest_update_cell v t c val1) t c val2) t = Some row
             \<and> row c = Some val2)"
proof -
  have "map cell_value (cells_of (update_cell (update_cell db t c val1) t c val2) t c) = [val2]"
    if "length (cells_of db t c) \<le> 1"
  proof -
    have "length (map cell_value (cells_of (update_cell db t c val1) t c)) = 1"
      using cells_of_update_same [OF that, of val1] by simp
    then show ?thesis
      using cells_of_update_same [of "update_cell db t c val1" t c val2] by simp
  qed
  moreover have "\<exists>row. guest_cells (guest_update_cell (guest_update_cell v t c val1) t c val2) t
                   = Some row \<and> row c = Some val2"
    by (simp add: guest_update_cell_def Let_def)
  ultimately show ?thesis
    by (simp add: get_after_update guest_get_after_update)
qed

theorem cell_round_trip_witness:
  "length (cells_of db_one_cell 1 2) \<le> 1
   \<and> map cell_value
       (cells_of (update_cell (update_cell db_one_cell 1 2 ''Done'') 1 2 ''Stuck'') 1 2)
     = [''Stuck'']"
proof -
  have h: "length (cells_of db_one_cell 1 2) \<le> 1"
    by (simp add: cells_of_def db_one_cell_def empty_database_def cell_matches_def)
  show ?thesis
    using h cell_round_trip [of db_one_cell 1 2 _ _ "''Done''" "''Stuck''"] by simp
qed

section \<open>Properties of status cycling\<close>

lemma index_of_None: "a \<notin> set xs \<Longrightarrow> index_of a xs = None"
  by (induction xs) auto

lemma next_index_less: "next_index s < length status_list"
  by (simp add: next_index_def status_list_def split: option.splits)

text \<open>The value written is always one of the four of the cycle.\<close>

lemma next_status_in_cycle: "next_status s \<in> set status_list"
  unfolding next_status_def using next_index_less [of s] by (rule nth_mem)

lemma next_status_values:
  "next_status '''' = ''Done''" "next_status ''Done'' = ''Working On It''"
  "next_status ''Working On It'' = ''Stuck''" "next_status ''Stuck'' = ''''"
  by (simp_all add: next_status_def next_index_def status_list_def)

lemma next_status_unknown: "s \<notin> set status_list \<Longrightarrow> next_status s = ''Done''"
  by (simp add: next_status_def next_index_def index_of_None) (simp add: status_list_def)

text \<open>
  Claim C2. On both backends \<^verbatim>\<open>cycle_status\<close> writes a function of the value the cell
  holds: its successor in the wrapping cycle Done, Working On It, Stuck, empty; a value
  outside the cycle is followed by Done.
\<close>

theorem cycle_status_successor:
  "get_cell_value (cycle_status db t c) t c = next_status (get_cell_value db t c)
   \<and> guest_get_cell_value (guest_cycle_status v t c) t c
       = next_status (guest_get_cell_value v t c)
   \<and> next_status '''' = ''Done'' \<and> next_status ''Done'' = ''Working On It''
   \<and> next_status ''Working On It'' = ''Stuck'' \<and> next_status ''Stuck'' = ''''
   \<and> (s \<notin> set status_list \<longrightarrow> next_status s = ''Done'')"
  by (simp add: cycle_status_def guest_cycle_status_def get_after_update guest_get_after_update
      next_status_values next_status_unknown)

theorem cycle_status_successor_witness:
  "''Blocked'' \<notin> set status_list \<and> next_status ''Blocked'' = ''Done''"
proof -
  have h: "''Blocked'' \<notin> set status_list" by (simp add: status_list_def)
  show ?thesis using h cycle_status_successor [of _ _ _ _ "''Blocked''"] by simp
qed

text \<open>Five clicks on a cell that reads empty.\<close>

lemma cycle_status_visits:
  assumes "get_cell_value db t c = ''''"
  shows "map (\<lambda>k. get_cell_value (((\<lambda>d. cycle_status d t c) ^^ k) db) t c) [1, 2, 3, 4, 5]
         = [''Done'', ''Working On It'', ''Stuck'', '''', ''Done'']"
  using assms
  by (simp add: numeral_eq_Suc cycle_status_def get_after_update next_status_values)

section \<open>Properties of column deletion\<close>

lemma db_demo_eval:
  "db_demo =
   \<lparr>users = [], boards = [\<lparr>board_id = 1, board_name = ''Demo'', board_user = 1\<rparr>],
    board_columns =
      [\<lparr>column_id = 1, column_board = 1, column_name = ''Status'', column_type = ''status'',
         column_position = 0\<rparr>,
       \<lparr>column_id = 2, column_board = 1, column_name = ''Notes'', column_type = ''text'',
         column_position = 1\<rparr>,
       \<lparr>column_id = 3, column_board = 1, column_name = ''Due Date'', column_type = ''date'',
         column_position = 2\<rparr>],
    tasks = [\<lparr>task_id = 1, task_board = 1, task_name = ''New Task 1'', task_position = 0\<rparr>],
    task_cells = [\<lparr>cell_id = 1, cell_task = 1, cell_column = 1, cell_value = ''Done''\<rparr>]\<rparr>"
  by (simp add: db_demo_def create_board_def empty_database_def ensure_default_columns_def
      columns_of_board_def insert_column_def next_id_def add_task_def board_tasks_def
      update_cell_def first_cell_def Let_def str_nat.simps [of "Suc 0"] digit_char_def)

text \<open>
  The guest branch of \<^verbatim>\<open>delete_column\<close> removes the column's entry from the cells of
  every task.
\<close>

lemma guest_delete_column_cells:
  "guest_cells (guest_delete_column v c) t = Some row \<Longrightarrow> row c = None"
  by (auto simp add: guest_delete_column_def)

lemma guest_delete_column_value: "guest_get_cell_value (guest_delete_column v c) t c = ''''"
  by (simp add: guest_delete_column_def guest_get_cell_value_def split: option.splits)

text \<open>
  Claim C3. Deleting a column deletes every cell that references it. The database
  branch of \<^verbatim>\<open>delete_column\<close> does not: on the board Demo, after the Status column
  (id 1) is deleted no column has the id 1, and the cell of task 1 with column id 1 is
  still stored.
\<close>

theorem delete_column_leaves_cells:
  "find (\<lambda>x. column_id x = 1) (board_columns (delete_column db_demo 1)) = None
   \<and> filter (\<lambda>x. cell_column x = 1) (task_cells (delete_column db_demo 1))
       = [\<lparr>cell_id = 1, cell_task = 1, cell_column = 1, cell_value = ''Done''\<rparr>]"
  by (simp add: db_demo_eval delete_column_def)

section \<open>Properties of task creation\<close>

lemma str_nat_digit: "n < 10 \<Longrightarrow> str_nat n = [digit_char n]"
  by (subst str_nat.simps) simp

lemma str_nat_small:
  "str_nat (Suc 0) = ''1''" "str_nat (Suc (Suc 0)) = ''2''" "str_nat (Suc (Suc (Suc 0))) = ''3''"
  "str_nat 2 = ''2''" "str_nat 3 = ''3''"
  by (simp_all add: str_nat_digit digit_char_def)

text \<open>
  Claim C4, as stated, fails in guest mode: the view that holds one task after a
  deletion names the next task by its counter, "New Task 3", not "New Task 2".
\<close>

theorem guest_add_task_counterexample:
  "length (guest_tasks view_after_delete) = 1
   \<and> gtask_name (last (guest_tasks (guest_add_task view_after_delete))) = ''New Task 3''
   \<and> gtask_name (last (guest_tasks (guest_add_task view_after_delete)))
       \<noteq> ''New Task '' @ str_nat (length (guest_tasks view_after_delete) + 1)"
  by (simp add: view_after_delete_def table_view_init_def seed_default_columns_def
      new_table_view_def create_default_columns_guest_def append_guest_column_def
      guest_add_task_def guest_delete_task_def Let_def str_nat_small)

text \<open>
  Claim C4, amended. On a board that holds n tasks, \<^verbatim>\<open>add_task\<close> appends one task with
  position n on both backends. In the database its name is "New Task " followed by
  n + 1 (so "New Task 3" at position 2 on a board with two tasks). In guest mode its
  name is "New Task " followed by the view's task counter plus one, which is n + 1 as
  long as the counter equals the number of tasks.
\<close>

theorem add_task_name_position:
  "task_name (last (tasks (add_task db b))) = ''New Task '' @ str_nat (length (board_tasks db b) + 1)
   \<and> task_position (last (tasks (add_task db b))) = length (board_tasks db b)
   \<and> task_board (last (tasks (add_task db b))) = b
   \<and> board_tasks (add_task db b) b = board_tasks db b @ [last (tasks (add_task db b))]
   \<and> (length (board_tasks db b) = 2 \<longrightarrow>
        task_name (last (tasks (add_task db b))) = ''New Task 3''
        \<and> task_position (last (tasks (add_task db b))) = 2)
   \<and> gtask_name (last (guest_tasks (guest_add_task v)))
       = ''New Task '' @ str_nat (guest_task_counter v + 1)
   \<and> gtask_position (last (guest_tasks (guest_add_task v))) = length (guest_tasks v)
   \<and> guest_tasks (guest_add_task v) = guest_tasks v @ [last (guest_tasks (guest_add_task v))]
   \<and> (guest_task_counter v = length (guest_tasks v) \<longrightarrow>
        gtask_name (last (guest_tasks (guest_add_task v)))
          = ''New Task '' @ str_nat (length (guest_tasks v) + 1))"
  by (simp add: add_task_def guest_add_task_def board_tasks_def Let_def str_nat_small)

theorem add_task_name_position_witness:
  "length (board_tasks (add_task db_demo 1) 1) = 2
   \<and> task_name (last (tasks (add_task (add_task db_demo 1) 1))) = ''New Task 3''
   \<and> task_position (last (tasks (add_task (add_task db_demo 1) 1))) = 2
   \<and> guest_task_counter (new_table_view 1) = length (guest_tasks (new_table_view 1))
   \<and> gtask_name (last (guest_tasks (guest_add_task (new_table_view 1)))) = ''New Task 1''"
proof -
  have h: "length (board_tasks (add_task db_demo 1) 1) = 2"
    by (simp add: db_demo_eval add_task_def board_tasks_def Let_def)
  have g: "guest_task_counter (new_table_view 1) = length (guest_tasks (new_table_view 1))"
    by (simp add: new_table_view_def)
  show ?thesis
    using h g add_task_name_position [of "add_task db_demo 1" 1 "new_table_view 1"]
    by (simp add: new_table_view_def str_nat_small)
qed

text \<open>
  Adding tasks alone keeps the guest counter equal to the number of tasks; deleting a
  task lowers the number and not the counter.
\<close>

lemma guest_add_task_counter:
  "guest_task_counter v = length (guest_tasks v) \<Longrightarrow>
   guest_task_counter (guest_add_task v) = length (guest_tasks (guest_add_task v))"
  by (simp add: guest_add_task_def Let_def)

section \<open>Properties of the default columns\<close>

text \<open>
  The seeding of the database branch: on a board without columns it stores the three
  default columns, on a board with a column it changes nothing, and running it twice
  is running it once. The guest constructor always starts from the three columns.
\<close>

lemma ensure_default_columns_fresh:
  assumes "columns_of_board db b = []"
  shows "map column_summary (list_columns (ensure_default_columns db b) b) = default_columns"
  using assms
  by (simp add: ensure_default_columns_def list_columns_def columns_of_board_def
      insert_column_def column_summary_def default_columns_def)

lemma ensure_default_columns_present:
  assumes "columns_of_board db b \<noteq> []"
  shows "ensure_default_columns db b = db"
  using assms by (simp add: ensure_default_columns_def)

lemma ensure_default_columns_idem:
  "ensure_default_columns (ensure_default_columns db b) b = ensure_default_columns db b"
proof (cases "columns_of_board db b = []")
  case True
  then have "columns_of_board (ensure_default_columns db b) b \<noteq> []"
    by (simp add: ensure_default_columns_def columns_of_board_def insert_column_def)
  then show ?thesis by (rule ensure_default_columns_present)
next
  case False
  then show ?thesis by (simp add: ensure_default_columns_present)
qed

lemma guest_default_columns:
  "map guest_column_summary (guest_list_columns (create_default_columns_guest (new_table_view b)))
     = default_columns"
  by (simp add: guest_list_columns_def create_default_columns_guest_def append_guest_column_def
      new_table_view_def guest_column_summary_def default_columns_def Let_def)

lemma new_table_view_columns:
  "guest_columns (new_table_view b) = []" "view_board (new_table_view b) = b"
  by (simp_all add: new_table_view_def)

lemma refresh_without_board: "refresh_board_view g db dashboard_empty = (db, dashboard_empty)"
  by (simp add: refresh_board_view_def board_view_init_def dashboard_empty_def)

lemma db_first_board_eval:
  "db_first_board =
   \<lparr>users = [], boards = [\<lparr>board_id = 1, board_name = ''First'', board_user = 1\<rparr>],
    board_columns =
      [\<lparr>column_id = 1, column_board = 1, column_name = ''Status'', column_type = ''status'',
         column_position = 0\<rparr>,
       \<lparr>column_id = 2, column_board = 1, column_name = ''Notes'', column_type = ''text'',
         column_position = 1\<rparr>,
       \<lparr>column_id = 3, column_board = 1, column_name = ''Due Date'', column_type = ''date'',
         column_position = 2\<rparr>],
    tasks = [], task_cells = []\<rparr>"
  by (simp add: db_first_board_def refresh_without_board handle_board_select_def
      refresh_board_view_def board_view_init_def table_view_init_def seed_default_columns_def
      new_table_view_def dashboard_empty_def create_board_def empty_database_def
      ensure_default_columns_def columns_of_board_def insert_column_def next_id_def Let_def)

lemma dashboard_first_board_eval:
  "dashboard_first_board = \<lparr>current_board = Some 1, board_view = Some (new_table_view 1)\<rparr>"
  by (simp add: dashboard_first_board_def refresh_without_board handle_board_select_def
      refresh_board_view_def board_view_init_def table_view_init_def seed_default_columns_def
      new_table_view_def dashboard_empty_def split: prod.splits)

lemma db_second_board_eval:
  "db_second_board =
   \<lparr>users = [], boards = [\<lparr>board_id = 1, board_name = ''Second'', board_user = 1\<rparr>],
    board_columns =
      [\<lparr>column_id = 1, column_board = 1, column_name = ''Status'', column_type = ''status'',
         column_position = 0\<rparr>,
       \<lparr>column_id = 2, column_board = 1, column_name = ''Notes'', column_type = ''text'',
         column_position = 1\<rparr>,
       \<lparr>column_id = 3, column_board = 1, column_name = ''Due Date'', column_type = ''date'',
         column_position = 2\<rparr>,
       \<lparr>column_id = 4, column_board = 1, column_name = ''Owner'', column_type = ''text'',
         column_position = 3\<rparr>],
    tasks = [], task_cells = []\<rparr>"
  by (simp add: db_second_board_def db_first_board_eval dashboard_first_board_eval
      delete_board_def delete_board_rows_def board_tasks_def refresh_board_view_def
      board_view_init_def table_view_init_def seed_default_columns_def new_table_view_def
      ensure_default_columns_def columns_of_board_def insert_column_def next_id_def Let_def
      create_column_def create_board_def)

text \<open>
  Claim C5. After the first construction of its table view a board has exactly the
  three default columns. The code breaks this for a board whose id was that of a board
  deleted while on display: the second board of the example is the only board, has the
  id 1 again, and the first construction of its table view finds four columns under
  that id and seeds nothing.
\<close>

theorem second_board_first_view:
  "boards db_second_board = [\<lparr>board_id = 1, board_name = ''Second'', board_user = 1\<rparr>]
   \<and> map column_summary
        (list_columns (fst (handle_board_select False db_second_board dashboard_first_board 1)) 1)
     = [(''Status'', ''status'', 0), (''Notes'', ''text'', 1), (''Due Date'', ''date'', 2),
        (''Owner'', ''text'', 3)]"
  by (simp add: db_second_board_eval handle_board_select_def refresh_board_view_def
      board_view_init_def table_view_init_def seed_default_columns_def new_table_view_def
      ensure_default_columns_def columns_of_board_def list_columns_def column_summary_def)

section \<open>Properties of board deletion\<close>

lemma find_None_iff_all: "find P xs = None \<longleftrightarrow> (\<forall>x\<in>set xs. \<not> P x)"
  by (induction xs) auto

lemma find_Some_props: "find P xs = Some x \<Longrightarrow> x \<in> set xs \<and> P x"
  by (induction xs) (auto split: if_splits)

lemma distinct_key_eq:
  assumes "distinct (map f xs)" "x \<in> set xs" "y \<in> set xs" "f x = f y"
  shows "x = y"
  using assms by (meson distinct_map inj_on_eq_iff)

text \<open>
  The deletion of the row with its cascades leaves no column, task or cell of the
  board: none is found by its id, given that primary keys are unique.
\<close>

lemma delete_board_rows_no_orphans:
  assumes keys: "primary_keys_ok db"
  shows "find_board (delete_board_rows db b) b = None
     \<and> (\<forall>col\<in>set (columns_of_board db b).
           find_column (delete_board_rows db b) (column_id col) = None)
     \<and> (\<forall>t\<in>set (board_tasks db b). find_task (delete_board_rows db b) (task_id t) = None)
     \<and> (\<forall>t\<in>set (board_tasks db b). \<forall>x\<in>set (task_cells db). cell_task x = task_id t \<longrightarrow>
           find_cell (delete_board_rows db b) (cell_id x) = None)
     \<and> columns_of_board (delete_board_rows db b) b = []
     \<and> board_tasks (delete_board_rows db b) b = []
     \<and> (\<forall>t\<in>set (board_tasks db b). \<forall>c. cells_of (delete_board_rows db b) (task_id t) c = [])"
proof -
  note eq = delete_board_rows_def Let_def
  have k1: "distinct (map column_id (board_columns db))"
    and k2: "distinct (map task_id (tasks db))"
    and k3: "distinct (map cell_id (task_cells db))"
    using keys by (simp_all add: primary_keys_ok_def)
  have "find_board (delete_board_rows db b) b = None"
    by (simp add: eq find_board_def find_None_iff_all)
  moreover have "find_column (delete_board_rows db b) (column_id col) = None"
    if "col \<in> set (columns_of_board db b)" for col
    using that distinct_key_eq [OF k1]
    by (auto simp add: eq find_column_def find_None_iff_all columns_of_board_def)
  moreover have "find_task (delete_board_rows db b) (task_id t) = None"
    if "t \<in> set (board_tasks db b)" for t
    using that distinct_key_eq [OF k2]
    by (auto simp add: eq find_task_def find_None_iff_all board_tasks_def)
  moreover have "find_cell (delete_board_rows db b) (cell_id x) = None"
    if "t \<in> set (board_tasks db b)" "x \<in> set (task_cells db)" "cell_task x = task_id t" for t x
  proof -
    have "y = x" if "y \<in> set (task_cells db)" "cell_id y = cell_id x" for y
      using distinct_key_eq [OF k3 that(1) \<open>x \<in> set (task_cells db)\<close> that(2)] .
    with that show ?thesis
      by (auto simp add: eq find_cell_def find_None_iff_all)
  qed
  moreover have "columns_of_board (delete_board_rows db b) b = []"
    by (simp add: eq columns_of_board_def filter_empty_conv)
  moreover have "board_tasks (delete_board_rows db b) b = []"
    by (simp add: eq board_tasks_def filter_empty_conv)
  moreover have "cells_of (delete_board_rows db b) (task_id t) c = []"
    if "t \<in> set (board_tasks db b)" for t c
    using that by (auto simp add: eq cells_of_def cell_matches_def filter_empty_conv)
  ultimately show ?thesis by blast
qed

text \<open>
  The handler deletes the rows and then refreshes the board view. The refresh stores
  no task and no cell; it stores columns for the board the dashboard holds.
\<close>

lemma delete_board_found:
  assumes "find_board db b \<noteq> None"
  shows "fst (delete_board db sb d b name) = fst (refresh_board_view False (delete_board_rows db b) d)"
proof -
  from assms obtain r where r: "find (\<lambda>x. board_id x = b) (boards db) = Some r"
    by (auto simp: find_board_def)
  with find_Some_props [OF r] show ?thesis
    by (simp add: delete_board_def split: prod.splits)
qed

lemma refresh_keeps_tasks_and_cells:
  "tasks (fst (refresh_board_view g db d)) = tasks db
   \<and> task_cells (fst (refresh_board_view g db d)) = task_cells db
   \<and> boards (fst (refresh_board_view g db d)) = boards db"
  by (simp add: refresh_board_view_def board_view_init_def table_view_init_def
      seed_default_columns_def ensure_default_columns_def insert_column_def Let_def
      split: option.splits prod.splits)

lemma refresh_other_board:
  assumes "current_board d \<noteq> Some b"
  shows "columns_of_board (fst (refresh_board_view False db d)) b = columns_of_board db b"
  using assms
  by (cases "current_board d")
    (auto simp add: refresh_board_view_def board_view_init_def table_view_init_def
      seed_default_columns_def ensure_default_columns_def insert_column_def Let_def
      new_table_view_def columns_of_board_def split: prod.splits)

text \<open>
  So the deletion leaves no task and no cell of the board in any case, and no column of
  the board unless the deleted board is the one on display.
\<close>

lemma delete_board_off_display:
  assumes "primary_keys_ok db" "find_board db b \<noteq> None" "current_board d \<noteq> Some b"
  shows "find_board (fst (delete_board db sb d b name)) b = None
     \<and> columns_of_board (fst (delete_board db sb d b name)) b = []
     \<and> board_tasks (fst (delete_board db sb d b name)) b = []
     \<and> (\<forall>t\<in>set (board_tasks db b). \<forall>c. cells_of (fst (delete_board db sb d b name)) (task_id t) c = [])"
  using delete_board_rows_no_orphans [OF assms(1), of b] refresh_other_board [OF assms(3)]
    refresh_keeps_tasks_and_cells [of False "delete_board_rows db b" d]
  by (simp add: delete_board_found [OF assms(2)] find_board_def board_tasks_def cells_of_def)

lemma dashboard_on_demo_eval:
  "dashboard_on_demo = \<lparr>current_board = Some 1, board_view = Some (new_table_view 1)\<rparr>"
  by (simp add: dashboard_on_demo_def db_demo_eval handle_board_select_def
      refresh_board_view_def board_view_init_def table_view_init_def seed_default_columns_def
      new_table_view_def dashboard_empty_def split: prod.splits)

text \<open>
  Claim C6. After a board is deleted none of its former columns, tasks and cells is
  found by its id. The code breaks this when the deleted board is the one on display:
  the refresh that ends the handler constructs the table view of the deleted board
  again, which stores three default columns under its id. On the board Demo the
  columns had the ids 1, 2 and 3; after the deletion the board is gone, and columns
  with the ids 1, 2 and 3 are stored for it.
\<close>

theorem delete_board_on_display_reseeds:
  "map column_id (columns_of_board db_demo 1) = [1, 2, 3]
   \<and> find_board (fst (delete_board db_demo sidebar_demo dashboard_on_demo 1 ''Demo'')) 1 = None
   \<and> map column_id
        (columns_of_board (fst (delete_board db_demo sidebar_demo dashboard_on_demo 1 ''Demo'')) 1)
     = [1, 2, 3]
   \<and> find_column (fst (delete_board db_demo sidebar_demo dashboard_on_demo 1 ''Demo'')) 1
     = Some \<lparr>column_id = 1, column_board = 1, column_name = ''Status'',
             column_type = ''status'', column_position = 0\<rparr>
   \<and> board_tasks (fst (delete_board db_demo sidebar_demo dashboard_on_demo 1 ''Demo'')) 1 = []
   \<and> task_cells (fst (delete_board db_demo sidebar_demo dashboard_on_demo 1 ''Demo'')) = []"
  by (simp add: db_demo_eval dashboard_on_demo_eval delete_board_def delete_board_rows_def
      board_tasks_def refresh_board_view_def board_view_init_def table_view_init_def
      seed_default_columns_def new_table_view_def ensure_default_columns_def
      columns_of_board_def insert_column_def next_id_def Let_def find_board_def
      find_column_def)

section \<open>Properties of renaming and deleting a missing board\<close>







section \<open>Properties of login\<close>

lemma db_alice_eval:
  "db_alice = empty_database\<lparr>users :=
      [\<lparr>user_id = 1, username = ''alice'', email = ''a@x.com'',
        password_hash = ''hash:secret1''\<rparr>]\<rparr>"
  by (simp add: db_alice_def register_def handle_signup_def first_username_or_email_def
      new_user_def empty_database_def next_id_def example_hash_def)

text \<open>
  When the verification returns, a failed login shows the same notification whether no
  user has the username or the password does not verify.
\<close>

lemma login_failure_same_error:
  assumes "uname \<noteq> []" "password \<noteq> []"
    and "find (\<lambda>x. username x = uname) (users db1) = None"
    and "find (\<lambda>x. username x = uname) (users db2) = Some u"
    and "verify password (password_hash u) = Inr False"
  shows "handle_login verify db1 uname password = (None, [invalid_credentials])"
    and "handle_login verify db2 uname password = (None, [invalid_credentials])"
  using assms by (simp_all add: handle_login_def)

lemma long_password_props: "long_password \<noteq> []" "4096 < length long_password"
  by (simp_all add: long_password_def)

text \<open>
  Claim C9. A failed login shows the same error whether the username is unknown or the
  password is wrong. The code breaks this for a password on which the verification
  raises: the verification runs only for a user that exists, so the known username
  alice gets "Login error: ..." and the unknown username carol gets "Invalid username
  or password", for the same password.
\<close>

theorem login_error_reveals_user:
  "handle_login example_verify db_alice ''alice'' long_password
     = (None, [(''Login error: password exceeds maximum allowed size'', True)])
   \<and> handle_login example_verify db_alice ''carol'' long_password
     = (None, [(''Invalid username or password'', True)])
   \<and> handle_login example_verify db_alice ''alice'' long_password
     \<noteq> handle_login example_verify db_alice ''carol'' long_password"
  by (simp add: handle_login_def db_alice_eval long_password_props example_verify_def
      invalid_credentials_def)

section \<open>Properties of signup\<close>


lemma register_valid:
  assumes "uname \<noteq> []" "mail \<noteq> []" "6 \<le> length password"
  shows "register hash db uname mail password =
     (case first_username_or_email db uname mail of
        Some existing_user \<Rightarrow>
          (if username existing_user = uname then (db, [username_exists])
           else (db, [email_exists]))
      | None \<Rightarrow>
          (case hash password of
             Inr h \<Rightarrow> (db\<lparr>users := users db @ [new_user db uname mail h]\<rparr>, [account_created])
           | Inl ex \<Rightarrow> (db, [(''Signup error: '' @ ex, True)])))"
proof -
  from assms(3) have "password \<noteq> []" by auto
  with assms show ?thesis
    by (simp add: register_def handle_signup_def not_less [symmetric])
qed

lemma lookup_none:
  assumes "\<forall>x\<in>set (users db). username x \<noteq> uname \<and> email x \<noteq> mail"
  shows "first_username_or_email db uname mail = None"
proof -
  from assms have "find (\<lambda>x. username x = uname) (users db) = None"
    and "find (\<lambda>x. email x = mail) (users db) = None"
    by (simp_all add: find_None_iff_all)
  then show ?thesis by (simp add: first_username_or_email_def)
qed





text \<open>A hash that raises creates no user and shows the text of the exception.\<close>

lemma register_hash_raises:
  assumes "uname \<noteq> []" "mail \<noteq> []" "6 \<le> length password"
    and "\<forall>x\<in>set (users db). username x \<noteq> uname \<and> email x \<noteq> mail"
    and "hash password = Inl ex"
  shows "register hash db uname mail password = (db, [(''Signup error: '' @ ex, True)])"
  using assms(5) lookup_none [OF assms(4)]
  by (simp add: register_valid [OF assms(1-3)])

section \<open>Properties of the dashboard\<close>

lemma guest_table_view_init:
  "table_view_init True db b = (db, create_default_columns_guest (new_table_view b))"
  by (simp add: table_view_init_def seed_default_columns_def new_table_view_def)

lemma default_view_fields:
  "guest_tasks (create_default_columns_guest (new_table_view b)) = []"
  "guest_cells (create_default_columns_guest (new_table_view b)) = Map.empty"
  "guest_task_counter (create_default_columns_guest (new_table_view b)) = 0"
  "view_board (create_default_columns_guest (new_table_view b)) = b"
  by (simp_all add: create_default_columns_guest_def append_guest_column_def new_table_view_def
      Let_def)

text \<open>
  Claim C10. In guest mode every board selection and every refresh of the board view
  constructs a new table view, whatever the dashboard showed before: the new view has
  exactly the three default columns, no task and no cell value, and the database is
  not touched.
\<close>

theorem guest_view_starts_over:
  "handle_board_select True db d b
     = (db, \<lparr>current_board = Some b,
             board_view = Some (create_default_columns_guest (new_table_view b))\<rparr>)
   \<and> (current_board d = Some b \<longrightarrow>
        refresh_board_view True db d
          = (db, \<lparr>current_board = Some b,
                  board_view = Some (create_default_columns_guest (new_table_view b))\<rparr>))
   \<and> map guest_column_summary (guest_list_columns (create_default_columns_guest (new_table_view b)))
       = default_columns
   \<and> guest_tasks (create_default_columns_guest (new_table_view b)) = []
   \<and> guest_cells (create_default_columns_guest (new_table_view b)) = Map.empty
   \<and> guest_get_cell_value (create_default_columns_guest (new_table_view b)) t c = ''''"
  by (simp add: handle_board_select_def refresh_board_view_def board_view_init_def
      guest_table_view_init guest_default_columns)
    (simp add: default_view_fields guest_get_cell_value_def)

theorem guest_view_starts_over_witness:
  "current_board dashboard_used = Some 1
   \<and> map gtask_name (guest_tasks (the (board_view dashboard_used))) = [''New Task 1'']
   \<and> guest_get_cell_value (the (board_view dashboard_used)) 1 1 = ''Done''
   \<and> guest_tasks (the (board_view (snd (refresh_board_view True empty_database dashboard_used)))) = []
   \<and> guest_get_cell_value
        (the (board_view (snd (refresh_board_view True empty_database dashboard_used)))) 1 1 = ''''"
proof -
  have a: "current_board dashboard_used = Some 1" by (simp add: dashboard_used_def)
  have b: "map gtask_name (guest_tasks (the (board_view dashboard_used))) = [''New Task 1'']"
    by (simp add: dashboard_used_def guest_table_view_init guest_update_cell_def
        guest_add_task_def Let_def str_nat_small default_view_fields)
  have c: "guest_get_cell_value (the (board_view dashboard_used)) 1 1 = ''Done''"
    by (simp add: dashboard_used_def guest_get_after_update)
  show ?thesis
    using a b c guest_view_starts_over [of empty_database dashboard_used 1 1 1]
    by simp
qed

end
